theory Spec2Isabelle
  imports Main "HOL-Library.Word"
begin

section \<open>Go strings, as the geocode package reads them\<close>

text \<open>
  A Go string is a byte sequence. Every function that the geocode package applies to a
  string (\<^verbatim>\<open>strings.ToLower\<close>, \<^verbatim>\<open>strings.TrimSpace\<close>, comparison with a literal,
  concatenation by \<^verbatim>\<open>fmt.Sprintf\<close>) reads it through its UTF-8 decoding, so a string
  is modelled by that decoding: a list of code points, each byte that is not part of a
  valid encoding standing for itself.
\<close>

datatype gchar = Rune nat | BadByte "8 word"

type_synonym gostring = "gchar list"

definition gostr :: "string \<Rightarrow> gostring" where
  "gostr s = map (\<lambda>c. Rune (of_char c)) s"

text \<open>
  \<^verbatim>\<open>unicode.IsSpace\<close>: the Latin-1 spaces \<^verbatim>\<open>\t \n \v \f \r\<close>, space, U+0085 and
  U+00A0, and beyond Latin-1 the code points of the Unicode property White_Space.
\<close>

definition unicode_IsSpace :: "nat \<Rightarrow> bool" where
  "unicode_IsSpace r \<longleftrightarrow>
     (if r \<le> 255 then r \<in> {9, 10, 11, 12, 13, 32, 133, 160}
      else r = 5760 \<or> (8192 \<le> r \<and> r \<le> 8202) \<or> r = 8232 \<or> r = 8233
           \<or> r = 8239 \<or> r = 8287 \<or> r = 12288)"

fun isSpace :: "gchar \<Rightarrow> bool" where
  "isSpace (Rune r) = unicode_IsSpace r"
| "isSpace (BadByte b) = False"

text \<open>
  \<^verbatim>\<open>strings.TrimSpace\<close> removes the leading and the trailing white space.
\<close>

definition TrimSpace :: "gostring \<Rightarrow> gostring" where
  "TrimSpace s = rev (dropWhile isSpace (rev (dropWhile isSpace s)))"

text \<open>
  \<^verbatim>\<open>strings.ToLower\<close> maps every code point through \<^verbatim>\<open>unicode.ToLower\<close>. The case
  table of the Go library is the parameter \<open>lower\<close>. A byte outside any valid encoding is
  read as U+FFFD (65533) and written back as the image of U+FFFD.
\<close>

fun lowerChar :: "(nat \<Rightarrow> nat) \<Rightarrow> gchar \<Rightarrow> gchar" where
  "lowerChar lower (Rune r) = Rune (lower r)"
| "lowerChar lower (BadByte b) = Rune (lower 65533)"

definition ToLower :: "(nat \<Rightarrow> nat) \<Rightarrow> gostring \<Rightarrow> gostring" where
  "ToLower lower s = map (lowerChar lower) s"

text \<open>The case table restricted to ASCII: \<^verbatim>\<open>'A'..'Z'\<close> move by 32, all else stays.\<close>

definition ascii_ToLower :: "nat \<Rightarrow> nat" where
  "ascii_ToLower r = (if 65 \<le> r \<and> r \<le> 90 then r + 32 else r)"

definition normalizeAddress :: "(nat \<Rightarrow> nat) \<Rightarrow> gostring \<Rightarrow> gostring" where
  "normalizeAddress lower address = TrimSpace (ToLower lower address)"

text \<open>\<^verbatim>\<open>%d\<close> of \<^verbatim>\<open>fmt\<close>: the decimal digits of an integer, with a minus sign below zero.\<close>

fun digits :: "nat \<Rightarrow> gostring" where
  "digits n = (if n < 10 then [Rune (48 + n)] else digits (n div 10) @ [Rune (48 + n mod 10)])"

definition Itoa :: "int \<Rightarrow> gostring" where
  "Itoa i = (if i < 0 then gostr ''-'' @ digits (nat (- i)) else digits (nat i))"

section \<open>Errors\<close>

text \<open>
  The two sentinel errors of the package, the errors it builds with \<^verbatim>\<open>fmt.Errorf\<close>
  (the formatted message), the two sentinels of package \<^verbatim>\<open>context\<close>, and the errors that
  \<^verbatim>\<open>net/http\<close> and \<^verbatim>\<open>encoding/json\<close> hand back: opaque ones, and ones that wrap
  another error as \<^verbatim>\<open>*url.Error\<close> does.
\<close>

datatype error =
    ErrAddressRequired
  | ErrNoResults
  | Errorf gostring
  | ContextCanceled
  | ContextDeadlineExceeded
  | LibError gostring
  | Wrapped gostring error

text \<open>\<^verbatim>\<open>errors.Is\<close>: the error itself or an error down its chain of \<^verbatim>\<open>Unwrap\<close>.\<close>

fun errors_Is :: "error \<Rightarrow> error \<Rightarrow> bool" where
  "errors_Is (Wrapped m inner) target =
     (Wrapped m inner = target \<or> errors_Is inner target)"
| "errors_Is e target = (e = target)"

section \<open>Data model\<close>

type_synonym float64 = "64 word"
  \<comment> \<open>the IEEE bit pattern; the package only copies these values\<close>

type_synonym time = int
  \<comment> \<open>an instant, in nanoseconds\<close>

type_synonym Duration = "64 word"
  \<comment> \<open>a signed 64-bit count of nanoseconds, read with \<open>sint\<close>\<close>

record Result =
  Address :: gostring
  Latitude :: float64
  Longitude :: float64
  Source :: gostring

definition Result_zero :: Result where
  "Result_zero = \<lparr>Address = [], Latitude = 0, Longitude = 0, Source = []\<rparr>"

record Location =
  Lat :: float64
  Lng :: float64

record Geometry =
  Location :: Location

record ResultItem =
  FormattedAddress :: gostring
  Geometry :: Geometry

record geocodeResponse =
  Results :: "ResultItem list"
  Status :: gostring
  ErrorMessage :: gostring

record cacheItem =
  item_value :: Result
  expires :: time

record cache =
  ttl :: Duration
  items :: "gostring \<rightharpoonup> cacheItem"

record Service =
  apiKey :: gostring
  cache :: cache

section \<open>The cache\<close>

definition newCache :: "Duration \<Rightarrow> cache" where
  "newCache d = \<lparr>ttl = d, items = Map.empty\<rparr>"

definition NewService :: "gostring \<Rightarrow> Duration \<Rightarrow> Service" where
  "NewService key cacheTTL = \<lparr>apiKey = key, cache = newCache cacheTTL\<rparr>"

definition After :: "time \<Rightarrow> time \<Rightarrow> bool" where
  "After t u \<longleftrightarrow> t > u"

definition Add :: "time \<Rightarrow> Duration \<Rightarrow> time" where
  "Add t d = t + sint d"

text \<open>
  \<^verbatim>\<open>cache.Get\<close> and \<^verbatim>\<open>cache.Set\<close>; \<open>now\<close> is the reading of \<^verbatim>\<open>time.Now()\<close>
  that the call makes. The updated cache is returned with the results.
\<close>

definition cache_Get :: "cache \<Rightarrow> time \<Rightarrow> gostring \<Rightarrow> cache \<times> Result \<times> bool" where
  "cache_Get c now key =
     (case items c key of
        None \<Rightarrow> (c, Result_zero, False)
      | Some item \<Rightarrow>
          if After now (expires item)
          then (c\<lparr>items := (items c)(key := None)\<rparr>, Result_zero, False)
          else (c, item_value item, True))"

definition cache_Set :: "cache \<Rightarrow> time \<Rightarrow> gostring \<Rightarrow> Result \<Rightarrow> cache" where
  "cache_Set c now key v =
     c\<lparr>items := (items c)(key \<mapsto> \<lparr>item_value = v, expires = Add now (ttl c)\<rparr>)\<rparr>"

section \<open>The lookup\<close>

text \<open>
  What lies outside the package is a parameter of the model: the case table, the query
  escaping of \<^verbatim>\<open>net/url\<close>, the validation that \<^verbatim>\<open>http.NewRequestWithContext\<close> makes
  (the error it reports, if any) and the HTTP round trip \<^verbatim>\<open>client.Do\<close>, which answers a
  request with an error or with a response. A response carries its status code and what
  \<^verbatim>\<open>json.Decode\<close> makes of its body.
\<close>

record 'ctx Request =
  req_ctx :: 'ctx
  req_method :: gostring
  req_url :: gostring

record Response =
  StatusCode :: int
  Body :: "error + geocodeResponse"

record 'ctx stdlib =
  unicode_ToLower :: "nat \<Rightarrow> nat"
  url_QueryEscape :: "gostring \<Rightarrow> gostring"
  http_NewRequestWithContext :: "'ctx \<Rightarrow> gostring \<Rightarrow> gostring \<Rightarrow> error option"
  client_Do :: "'ctx Request \<Rightarrow> error + Response"

text \<open>
  What one call of \<^verbatim>\<open>Geocode\<close> does besides returning: the cache operations and the
  upstream requests it makes, in order.
\<close>

datatype 'ctx event =
    CacheGet gostring
  | ClientDo "'ctx Request"
  | CacheSet gostring Result

record 'ctx outcome =
  ret :: Result
  err :: "error option"
  svc :: Service
  trace :: "'ctx event list"

definition fail :: "Service \<Rightarrow> 'ctx event list \<Rightarrow> error \<Rightarrow> 'ctx outcome" where
  "fail s tr e = \<lparr>ret = Result_zero, err = Some e, svc = s, trace = tr\<rparr>"

definition apiURL :: "'ctx stdlib \<Rightarrow> gostring \<Rightarrow> gostring \<Rightarrow> gostring" where
  "apiURL lib key address =
     gostr ''https://maps.googleapis.com/maps/api/geocode/json?address=''
       @ url_QueryEscape lib address @ gostr ''&key='' @ key"

text \<open>
  \<^verbatim>\<open>Service.Geocode\<close>. \<open>now_get\<close> and \<open>now_set\<close> are the readings of the clock
  inside \<^verbatim>\<open>cache.Get\<close> and \<^verbatim>\<open>cache.Set\<close>.
\<close>

definition Geocode ::
  "'ctx stdlib \<Rightarrow> Service \<Rightarrow> time \<Rightarrow> time \<Rightarrow> 'ctx \<Rightarrow> gostring \<Rightarrow> 'ctx outcome" where
  "Geocode lib s now_get now_set ctx rawAddress =
     (let address = normalizeAddress (unicode_ToLower lib) rawAddress in
      if address = [] then fail s [] ErrAddressRequired
      else
       (case cache_Get (cache s) now_get address of
          (c1, result, True) \<Rightarrow>
            \<lparr>ret = result\<lparr>Source := gostr ''cache''\<rparr>, err = None,
             svc = s\<lparr>cache := c1\<rparr>, trace = [CacheGet address]\<rparr>
        | (c1, result, False) \<Rightarrow>
           (let s1 = s\<lparr>cache := c1\<rparr>;
                url = apiURL lib (apiKey s) address
            in
            case http_NewRequestWithContext lib ctx (gostr ''GET'') url of
              Some e \<Rightarrow> fail s1 [CacheGet address] e
            | None \<Rightarrow>
               (let req = \<lparr>req_ctx = ctx, req_method = gostr ''GET'', req_url = url\<rparr>;
                    tr = [CacheGet address, ClientDo req]
                in
                case client_Do lib req of
                  Inl e \<Rightarrow> fail s1 tr e
                | Inr resp \<Rightarrow>
                    if StatusCode resp \<noteq> 200
                    then fail s1 tr
                           (Errorf (gostr ''google maps api returned status ''
                                      @ Itoa (StatusCode resp)))
                    else
                     (case Body resp of
                        Inl e \<Rightarrow> fail s1 tr e
                      | Inr payload \<Rightarrow>
                          if Status payload \<noteq> gostr ''OK''
                          then
                            if ErrorMessage payload \<noteq> []
                            then fail s1 tr
                                   (Errorf (gostr ''google maps api error: ''
                                              @ ErrorMessage payload))
                            else fail s1 tr
                                   (Errorf (gostr ''google maps api status: ''
                                              @ Status payload))
                          else
                           (case Results payload of
                              [] \<Rightarrow> fail s1 tr ErrNoResults
                            | top_item # rest \<Rightarrow>
                               (let result =
                                      \<lparr>Address = FormattedAddress top_item,
                                       Latitude = Lat (Location (Geometry top_item)),
                                       Longitude = Lng (Location (Geometry top_item)),
                                       Source = gostr ''google''\<rparr>
                                in
                                \<lparr>ret = result, err = None,
                                 svc = s1\<lparr>cache := cache_Set c1 now_set address result\<rparr>,
                                 trace = tr @ [CacheSet address result]\<rparr>)))))))"

text \<open>
  The status that \<^verbatim>\<open>geocodeHandler\<close> (package server) answers with when
  \<^verbatim>\<open>Geocode\<close> returns an error: the \<^verbatim>\<open>switch\<close> of the handler.
\<close>

definition handler_error_status :: "error \<Rightarrow> int" where
  "handler_error_status e =
     (if errors_Is e ErrNoResults then 404
      else if errors_Is e ContextDeadlineExceeded \<or> errors_Is e ContextCanceled then 504
      else 502)"

section \<open>Reading a trace, and running several calls\<close>

text \<open>
  The upstream requests of a trace, one for each call of \<^verbatim>\<open>client.Do\<close>, and its
  writes to the cache.
\<close>

fun upstream_calls :: "'ctx event list \<Rightarrow> 'ctx Request list" where
  "upstream_calls [] = []"
| "upstream_calls (ClientDo r # es) = r # upstream_calls es"
| "upstream_calls (e # es) = upstream_calls es"

fun cache_writes :: "'ctx event list \<Rightarrow> (gostring \<times> Result) list" where
  "cache_writes [] = []"
| "cache_writes (CacheSet k v # es) = (k, v) # cache_writes es"
| "cache_writes (e # es) = cache_writes es"

text \<open>The request that \<^verbatim>\<open>Geocode\<close> sends for a normalized address.\<close>

definition upstream_request ::
  "'ctx stdlib \<Rightarrow> gostring \<Rightarrow> 'ctx \<Rightarrow> gostring \<Rightarrow> 'ctx Request" where
  "upstream_request lib key ctx address =
     \<lparr>req_ctx = ctx, req_method = gostr ''GET'', req_url = apiURL lib key address\<rparr>"

text \<open>
  The upstream answers the request for \<open>address\<close> with HTTP status 200, provider status
  \<^verbatim>\<open>"OK"\<close> and an empty list of results.
\<close>

definition empty_answer :: "'ctx stdlib \<Rightarrow> gostring \<Rightarrow> 'ctx \<Rightarrow> gostring \<Rightarrow> bool" where
  "empty_answer lib key ctx address \<longleftrightarrow>
     http_NewRequestWithContext lib ctx (gostr ''GET'') (apiURL lib key address) = None
     \<and> (case client_Do lib (upstream_request lib key ctx address) of
          Inl e \<Rightarrow> False
        | Inr resp \<Rightarrow>
            StatusCode resp = 200
            \<and> (case Body resp of
                 Inl e \<Rightarrow> False
               | Inr payload \<Rightarrow> Status payload = gostr ''OK'' \<and> Results payload = []))"

text \<open>
  Successive calls on one service, each with its clock readings, its context and its raw
  address; the service that a call leaves is the one the next call finds.
\<close>

fun Geocode_all ::
  "'ctx stdlib \<Rightarrow> Service \<Rightarrow> (time \<times> time \<times> 'ctx \<times> gostring) list \<Rightarrow> 'ctx outcome list" where
  "Geocode_all lib s [] = []"
| "Geocode_all lib s ((now_get, now_set, ctx, raw) # calls) =
     (let out = Geocode lib s now_get now_set ctx raw
      in out # Geocode_all lib (svc out) calls)"

text \<open>
  Two characters of which one is the other or the other's lower-case form; two strings
  are compared position by position.
\<close>

fun case_variant :: "(nat \<Rightarrow> nat) \<Rightarrow> gchar \<Rightarrow> gchar \<Rightarrow> bool" where
  "case_variant lower (Rune x) (Rune y) = (x = y \<or> lower x = y \<or> lower y = x)"
| "case_variant lower a b = (a = b)"

text \<open>
  \<^verbatim>\<open>strings.ToUpper\<close>, the same mapping under the upper-case table. The package does not
  call it; it says of two strings that one is the other in capitals.
\<close>

definition ToUpper :: "(nat \<Rightarrow> nat) \<Rightarrow> gostring \<Rightarrow> gostring" where
  "ToUpper upper s = map (lowerChar upper) s"

section \<open>The HTTP client\<close>






section \<open>A stub upstream\<close>

text \<open>
  A provider that gives every request the same answer, with the ASCII case table and the
  query escaping of letters, digits and spaces (a space becomes \<^verbatim>\<open>+\<close>).
\<close>

definition stub_QueryEscape :: "gostring \<Rightarrow> gostring" where
  "stub_QueryEscape s = map (\<lambda>c. if c = Rune 32 then Rune 43 else c) s"

definition stub_lib :: "error + Response \<Rightarrow> unit stdlib" where
  "stub_lib answer =
     \<lparr>unicode_ToLower = ascii_ToLower,
      url_QueryEscape = stub_QueryEscape,
      http_NewRequestWithContext = (\<lambda>ctx m u. None),
      client_Do = (\<lambda>req. answer)\<rparr>"

definition infinite_loop_payload :: geocodeResponse where
  "infinite_loop_payload =
     \<lparr>Results =
        [\<lparr>FormattedAddress = gostr ''1 Infinite Loop'',
          Geometry = \<lparr>Location = \<lparr>Lat = 0x4042AA3D70A3D70A, Lng = 0xC05E81EB851EB852\<rparr>\<rparr>\<rparr>],
      Status = gostr ''OK'',
      ErrorMessage = []\<rparr>"

definition answer_ok :: "geocodeResponse \<Rightarrow> error + Response" where
  "answer_ok payload = Inr \<lparr>StatusCode = 200, Body = Inr payload\<rparr>"

definition empty_payload :: geocodeResponse where
  "empty_payload = \<lparr>Results = [], Status = gostr ''OK'', ErrorMessage = []\<rparr>"

definition denied_payload :: geocodeResponse where
  "denied_payload =
     \<lparr>Results = [], Status = gostr ''REQUEST_DENIED'',
      ErrorMessage = gostr ''The provided API key is invalid.''\<rparr>"

definition thirty_minutes :: Duration where
  "thirty_minutes = 1800000000000"

definition main_service :: Service where
  "main_service = NewService (gostr ''KEY'') thirty_minutes"

text \<open>
  A cached result, a service that holds it, errors as the transport and the decoder report
  them, and a provider answer without an error message.
\<close>

definition main_st_result :: Result where
  "main_st_result =
     \<lparr>Address = gostr ''Main St, Springfield'', Latitude = 0x4043E00000000000,
      Longitude = 0xC056800000000000, Source = gostr ''google''\<rparr>"

definition cached_service :: Service where
  "cached_service =
     main_service\<lparr>cache := cache_Set (cache main_service) 0 (gostr ''main st'') main_st_result\<rparr>"


definition refused_error :: error where
  "refused_error = Wrapped (gostr ''Get: dial tcp: connection refused'') (LibError (gostr ''connection refused''))"

definition syntax_error :: error where
  "syntax_error = LibError (gostr ''unexpected end of JSON input'')"

definition over_limit_payload :: geocodeResponse where
  "over_limit_payload = \<lparr>Results = [], Status = gostr ''OVER_QUERY_LIMIT'', ErrorMessage = []\<rparr>"

text \<open>
  The case tables of Go's \<^verbatim>\<open>unicode\<close> package on the ASCII letters and on the Greek
  letters U+0391 to U+03AB and U+03B1 to U+03CB: capital sigma (931) has the lower-case
  form sigma (963), and both sigma and final sigma (962) have the capital form 931. The
  word \<^verbatim>\<open>odos\<close> in capitals and in small letters, with its final sigma.
\<close>

definition greek_ToLower :: "nat \<Rightarrow> nat" where
  "greek_ToLower r =
     (if 65 \<le> r \<and> r \<le> 90 then r + 32
      else if (913 \<le> r \<and> r \<le> 929) \<or> (931 \<le> r \<and> r \<le> 939) then r + 32
      else r)"

definition greek_ToUpper :: "nat \<Rightarrow> nat" where
  "greek_ToUpper r =
     (if 97 \<le> r \<and> r \<le> 122 then r - 32
      else if r = 962 then 931
      else if (945 \<le> r \<and> r \<le> 961) \<or> (963 \<le> r \<and> r \<le> 971) then r - 32
      else r)"

definition odos_capital :: gostring where
  "odos_capital = [Rune 927, Rune 916, Rune 927, Rune 931]"

definition odos_small :: gostring where
  "odos_small = [Rune 959, Rune 948, Rune 959, Rune 962]"




section \<open>Normalization\<close>

lemma dropWhile_rev_dropWhile_hd:
  "dropWhile P (rev (dropWhile P (rev (dropWhile P xs)))) = rev (dropWhile P (rev (dropWhile P xs)))"
proof (cases "dropWhile P (rev (dropWhile P xs)) = []")
  case True
  show ?thesis unfolding True by simp
next
  case False
  let ?t = "dropWhile P xs"
  let ?u = "dropWhile P (rev ?t)"
  have tne: "?t \<noteq> []"
  proof
    assume e: "?t = []"
    have "dropWhile P (rev []) = []" by simp
    with e False show False by metis
  qed
  have "\<not> P (hd ?t)" using tne by (rule hd_dropWhile)
  obtain pre where pre: "rev ?t = pre @ ?u"
    by (metis takeWhile_dropWhile_id)
  then have "?t = rev ?u @ rev pre" by (metis rev_append rev_rev_ident)
  then have "hd (rev ?u) = hd ?t" using False by (metis hd_append2 rev_is_Nil_conv)
  then have "\<not> P (hd (rev ?u))" using \<open>\<not> P (hd ?t)\<close> by simp
  then show ?thesis by (metis dropWhile_eq_self_iff)
qed

lemma TrimSpace_idem: "TrimSpace (TrimSpace s) = TrimSpace s"
proof -
  let ?u = "dropWhile isSpace (rev (dropWhile isSpace s))"
  have a: "dropWhile isSpace (rev ?u) = rev ?u" by (rule dropWhile_rev_dropWhile_hd)
  have b: "dropWhile isSpace ?u = ?u"
    by (metis dropWhile_eq_self_iff hd_dropWhile)
  show ?thesis unfolding TrimSpace_def by (simp add: a b)
qed

lemma isSpace_lowerChar:
  assumes "\<forall>r. unicode_IsSpace (lower r) = unicode_IsSpace r"
  shows "isSpace (lowerChar lower c) = isSpace c"
  using assms by (cases c) (simp_all add: unicode_IsSpace_def)

lemma ToLower_TrimSpace:
  assumes "\<forall>r. unicode_IsSpace (lower r) = unicode_IsSpace r"
  shows "ToLower lower (TrimSpace s) = TrimSpace (ToLower lower s)"
proof -
  have c: "isSpace \<circ> lowerChar lower = isSpace"
    using isSpace_lowerChar [OF assms] by (simp add: fun_eq_iff)
  show ?thesis
    unfolding ToLower_def TrimSpace_def
    by (simp add: rev_map dropWhile_map c)
qed

lemma ToLower_idem:
  assumes "\<forall>r. lower (lower r) = lower r"
  shows "ToLower lower (ToLower lower s) = ToLower lower s"
proof -
  have "lowerChar lower (lowerChar lower c) = lowerChar lower c" for c
    using assms by (cases c) simp_all
  then show ?thesis by (simp add: ToLower_def)
qed

lemma dropWhile_all: "\<forall>x\<in>set xs. P x \<Longrightarrow> dropWhile P xs = []"
  by simp

lemma TrimSpace_padding:
  assumes "\<forall>c\<in>set l. isSpace c" "\<forall>c\<in>set r. isSpace c"
  shows "TrimSpace (l @ m @ r) = TrimSpace m"
  using assms by (auto simp: TrimSpace_def dropWhile_append dropWhile_all)

lemma case_variant_lowerChar:
  assumes "\<forall>r. lower (lower r) = lower r" and "case_variant lower a b"
  shows "lowerChar lower a = lowerChar lower b"
proof (cases a)
  case (Rune x)
  note a = this
  show ?thesis
  proof (cases b)
    case (Rune y)
    then show ?thesis using assms a by auto
  next
    case (BadByte c)
    then show ?thesis using assms(2) a by simp
  qed
next
  case (BadByte c)
  then show ?thesis using assms(2) by simp
qed

lemma case_variant_ToLower:
  assumes "\<forall>r. lower (lower r) = lower r"
  shows "list_all2 (case_variant lower) m1 m2 \<Longrightarrow> ToLower lower m1 = ToLower lower m2"
  unfolding ToLower_def
  by (induction m1 m2 rule: list_all2_induct)
     (simp_all add: case_variant_lowerChar [OF assms])

text \<open>
  The Greek fragment is a table of the kind the theorem below is about. Under it capital
  sigma and sigma are case variants; capital sigma and final sigma are not.
\<close>

lemma sigma_variants:
  "case_variant greek_ToLower (Rune 931) (Rune 963)
   \<and> \<not> case_variant greek_ToLower (Rune 931) (Rune 962)"
  by (simp add: greek_ToLower_def)

lemma greek_table:
  "(\<forall>r. greek_ToLower (greek_ToLower r) = greek_ToLower r)
   \<and> (\<forall>r. unicode_IsSpace (greek_ToLower r) = unicode_IsSpace r)
   \<and> (\<forall>r<128. greek_ToLower r = ascii_ToLower r)"
  by (auto simp: greek_ToLower_def ascii_ToLower_def unicode_IsSpace_def)

lemma normalizeAddress_idem:
  assumes "\<forall>r. lower (lower r) = lower r"
    and "\<forall>r. unicode_IsSpace (lower r) = unicode_IsSpace r"
  shows "normalizeAddress lower (normalizeAddress lower s) = normalizeAddress lower s"
  unfolding normalizeAddress_def
  by (simp add: ToLower_TrimSpace [OF assms(2)] ToLower_idem [OF assms(1)] TrimSpace_idem)

lemma normalizeAddress_padding_case:
  assumes idem: "\<forall>r. lower (lower r) = lower r"
    and sp: "\<forall>r. unicode_IsSpace (lower r) = unicode_IsSpace r"
    and "\<forall>c\<in>set l1. isSpace c" "\<forall>c\<in>set r1. isSpace c"
    and "\<forall>c\<in>set l2. isSpace c" "\<forall>c\<in>set r2. isSpace c"
    and "list_all2 (case_variant lower) m1 m2"
  shows "normalizeAddress lower (l1 @ m1 @ r1) = normalizeAddress lower (l2 @ m2 @ r2)"
proof -
  have n: "normalizeAddress lower (l @ m @ r) = TrimSpace (ToLower lower m)"
    if "\<forall>c\<in>set l. isSpace c" "\<forall>c\<in>set r. isSpace c" for l m r
  proof -
    have "normalizeAddress lower (l @ m @ r) = ToLower lower (TrimSpace (l @ m @ r))"
      by (simp add: normalizeAddress_def ToLower_TrimSpace [OF sp])
    also have "\<dots> = ToLower lower (TrimSpace m)"
      using that by (simp add: TrimSpace_padding)
    finally show ?thesis by (simp add: ToLower_TrimSpace [OF sp])
  qed
  show ?thesis
    using assms by (simp add: n case_variant_ToLower [OF idem])
qed

text \<open>
  Claim C4, for the case variants that lower-casing identifies. Normalization is
  idempotent; \<^verbatim>\<open>" Foo "\<close>, \<^verbatim>\<open>"foo"\<close> and \<^verbatim>\<open>"FOO"\<close> have one normalized form; and
  two raw addresses that differ only by leading or trailing white space and, position by
  position, by a character standing where the other has its lower-case form (as the ASCII
  letters do in either case) have the same normalized form, so that \<^verbatim>\<open>Geocode\<close> treats
  them alike: same cache key, same outcome. The case table is that of the Go library; what
  is used of it is that lower-casing twice is lower-casing once, that it maps white space
  to white space and nothing else to white space, and that on ASCII it moves
  \<^verbatim>\<open>'A'..'Z'\<close> to \<^verbatim>\<open>'a'..'z'\<close>.
\<close>

theorem normalizeAddress_collapses:
  assumes idem: "\<forall>r. unicode_ToLower lib (unicode_ToLower lib r) = unicode_ToLower lib r"
    and sp: "\<forall>r. unicode_IsSpace (unicode_ToLower lib r) = unicode_IsSpace r"
    and ascii: "\<forall>r<128. unicode_ToLower lib r = ascii_ToLower r"
  shows "normalizeAddress (unicode_ToLower lib) (normalizeAddress (unicode_ToLower lib) s)
           = normalizeAddress (unicode_ToLower lib) s
       \<and> normalizeAddress (unicode_ToLower lib) (gostr '' Foo '')
           = normalizeAddress (unicode_ToLower lib) (gostr ''foo'')
       \<and> normalizeAddress (unicode_ToLower lib) (gostr ''foo'')
           = normalizeAddress (unicode_ToLower lib) (gostr ''FOO'')
       \<and> ((\<forall>c\<in>set l1. isSpace c) \<and> (\<forall>c\<in>set r1. isSpace c)
            \<and> (\<forall>c\<in>set l2. isSpace c) \<and> (\<forall>c\<in>set r2. isSpace c)
            \<and> list_all2 (case_variant (unicode_ToLower lib)) m1 m2
          \<longrightarrow> normalizeAddress (unicode_ToLower lib) (l1 @ m1 @ r1)
                = normalizeAddress (unicode_ToLower lib) (l2 @ m2 @ r2)
            \<and> Geocode lib sv now_get now_set ctx (l1 @ m1 @ r1)
                = Geocode lib sv now_get now_set ctx (l2 @ m2 @ r2))"
proof -
  have 1: "normalizeAddress (unicode_ToLower lib) (normalizeAddress (unicode_ToLower lib) s)
           = normalizeAddress (unicode_ToLower lib) s"
    by (rule normalizeAddress_idem [OF idem sp])
  have 2: "normalizeAddress (unicode_ToLower lib) (gostr '' Foo '')
           = normalizeAddress (unicode_ToLower lib) (gostr ''foo'')"
    using ascii
    by (simp add: normalizeAddress_def TrimSpace_def ToLower_def gostr_def
          ascii_ToLower_def unicode_IsSpace_def)
  have 3: "normalizeAddress (unicode_ToLower lib) (gostr ''foo'')
           = normalizeAddress (unicode_ToLower lib) (gostr ''FOO'')"
    using ascii
    by (simp add: normalizeAddress_def TrimSpace_def ToLower_def gostr_def
          ascii_ToLower_def unicode_IsSpace_def)
  have 4: "normalizeAddress (unicode_ToLower lib) (l1 @ m1 @ r1)
                = normalizeAddress (unicode_ToLower lib) (l2 @ m2 @ r2)"
    if "(\<forall>c\<in>set l1. isSpace c) \<and> (\<forall>c\<in>set r1. isSpace c)
            \<and> (\<forall>c\<in>set l2. isSpace c) \<and> (\<forall>c\<in>set r2. isSpace c)
            \<and> list_all2 (case_variant (unicode_ToLower lib)) m1 m2"
    using that normalizeAddress_padding_case [OF idem sp, of l1 r1 l2 r2 m1 m2] by blast
  have 5: "Geocode lib sv now_get now_set ctx a = Geocode lib sv now_get now_set ctx b"
    if "normalizeAddress (unicode_ToLower lib) a = normalizeAddress (unicode_ToLower lib) b"
    for a b
    using that by (simp add: Geocode_def)
  show ?thesis using 1 2 3 4 5 by blast
qed

theorem normalizeAddress_collapses_witness:
  "(\<forall>r. ascii_ToLower (ascii_ToLower r) = ascii_ToLower r)
   \<and> (\<forall>r. unicode_IsSpace (ascii_ToLower r) = unicode_IsSpace r)
   \<and> normalizeAddress ascii_ToLower (normalizeAddress ascii_ToLower (gostr '' Foo '')) = gostr ''foo''
   \<and> list_all2 (case_variant ascii_ToLower) (gostr ''Main St'') (gostr ''MAIN st'')
   \<and> normalizeAddress ascii_ToLower (gostr ''Main St'')
       = normalizeAddress ascii_ToLower (gostr ''  MAIN st '')
   \<and> Geocode (stub_lib (answer_ok empty_payload)) main_service 0 0 () (gostr ''Main St'')
       = Geocode (stub_lib (answer_ok empty_payload)) main_service 0 0 () (gostr ''  MAIN st '')"
proof -
  let ?lib = "stub_lib (answer_ok empty_payload)"
  have low: "unicode_ToLower ?lib = ascii_ToLower"
    by (simp add: stub_lib_def)
  have idem: "\<forall>r. unicode_ToLower ?lib (unicode_ToLower ?lib r) = unicode_ToLower ?lib r"
    by (simp add: low ascii_ToLower_def)
  have sp: "\<forall>r. unicode_IsSpace (unicode_ToLower ?lib r) = unicode_IsSpace r"
    by (simp add: low ascii_ToLower_def unicode_IsSpace_def)
  have ascii: "\<forall>r<128. unicode_ToLower ?lib r = ascii_ToLower r"
    by (simp add: low)
  have same: "list_all2 (case_variant ascii_ToLower) (gostr ''Main St'') (gostr ''MAIN st'')"
    by (simp add: gostr_def ascii_ToLower_def)
  have foo: "normalizeAddress ascii_ToLower (gostr '' Foo '') = gostr ''foo''"
    by (simp add: normalizeAddress_def TrimSpace_def ToLower_def gostr_def ascii_ToLower_def
          unicode_IsSpace_def)
  have pad: "(\<forall>c\<in>set []. isSpace c) \<and> (\<forall>c\<in>set []. isSpace c)
     \<and> (\<forall>c\<in>set (gostr ''  ''). isSpace c) \<and> (\<forall>c\<in>set (gostr '' ''). isSpace c)"
    by (simp add: gostr_def unicode_IsSpace_def)
  have split: "gostr ''  MAIN st '' = gostr ''  '' @ gostr ''MAIN st'' @ gostr '' ''"
    by (simp add: gostr_def)
  from normalizeAddress_collapses [OF idem sp ascii,
      of "gostr '' Foo ''" "[]" "[]" "gostr ''  ''" "gostr '' ''"
         "gostr ''Main St''" "gostr ''MAIN st''" main_service 0 0 "()"]
  show ?thesis
    using same pad idem sp by (simp add: low foo split)
qed

text \<open>
  Two addresses that differ only by case can have different normalized forms: the capitals
  of a word that ends in a final sigma are lower-cased to a word that ends in a sigma.
\<close>

theorem normalizeAddress_case_counterexample:
  "ToUpper greek_ToUpper odos_small = odos_capital
   \<and> normalizeAddress greek_ToLower odos_capital = [Rune 959, Rune 948, Rune 959, Rune 963]
   \<and> normalizeAddress greek_ToLower odos_small = [Rune 959, Rune 948, Rune 959, Rune 962]
   \<and> normalizeAddress greek_ToLower odos_capital \<noteq> normalizeAddress greek_ToLower odos_small"
  by (simp add: ToUpper_def greek_ToUpper_def greek_ToLower_def odos_small_def odos_capital_def
        normalizeAddress_def TrimSpace_def ToLower_def unicode_IsSpace_def)

section \<open>The cache: round trip and expiry\<close>

lemma cache_Get_ttl: "cache_Get c now key = (c', r, found) \<Longrightarrow> ttl c' = ttl c"
  by (auto simp: cache_Get_def split: option.splits if_splits)

lemma cache_Get_miss_absent:
  "cache_Get c now key = (c1, r0, False) \<Longrightarrow> items c1 key = None"
  by (auto simp: cache_Get_def split: option.splits if_splits)

lemma cache_Get_absent:
  "items c key = None \<Longrightarrow> cache_Get c now key = (c, Result_zero, False)"
  by (simp add: cache_Get_def)

text \<open>
  Claim C5. \<^verbatim>\<open>Set(k, v)\<close> at \<open>t0\<close> followed by \<^verbatim>\<open>Get(k)\<close> at \<open>t1\<close>, no later than
  \<open>t0\<close> plus the TTL, returns \<open>(v, true)\<close>: the value as it was stored, its source
  field included. The entry that \<^verbatim>\<open>Set\<close> leaves is \<open>v\<close> with expiry \<open>t0\<close> plus the
  TTL whatever the cache held before, and a \<^verbatim>\<open>Set\<close> over an earlier \<^verbatim>\<open>Set\<close> of the
  same key leaves the cache that the later one alone would leave.
\<close>

theorem cache_Set_Get:
  assumes "t1 \<le> t0 + sint (ttl c)"
  shows "cache_Get (cache_Set c t0 k v) t1 k = (cache_Set c t0 k v, v, True)
       \<and> items (cache_Set c t0 k v) k = Some \<lparr>item_value = v, expires = t0 + sint (ttl c)\<rparr>
       \<and> cache_Set (cache_Set c t k old) t0 k v = cache_Set c t0 k v"
  using assms by (simp add: cache_Get_def cache_Set_def After_def Add_def)

theorem cache_Set_Get_witness:
  "cache_Get (cache_Set (newCache thirty_minutes) 7 (gostr ''main st'') main_st_result)
      1800000000007 (gostr ''main st'')
     = (cache_Set (newCache thirty_minutes) 7 (gostr ''main st'') main_st_result,
        main_st_result, True)
   \<and> Source main_st_result = gostr ''google''"
proof -
  have h: "(1800000000007::int) \<le> 7 + sint (ttl (newCache thirty_minutes))"
    by (simp add: newCache_def thirty_minutes_def)
  from cache_Set_Get [OF h, of "gostr ''main st''" main_st_result]
  show ?thesis by (simp add: main_st_result_def)
qed

text \<open>
  Claim C6. \<^verbatim>\<open>Get(k)\<close> at instant \<open>now\<close> finds a value exactly when the cache holds
  an entry for \<open>k\<close> whose expiry is not before \<open>now\<close>; it then returns the value of that
  entry and leaves the cache as it was. Otherwise it returns the zero result and
  \<open>false\<close>, the cache it leaves has no entry for \<open>k\<close> (an expired entry is removed, all
  other keys are untouched), and a later \<^verbatim>\<open>Get(k)\<close> on that cache, at any instant,
  returns \<open>false\<close> again.
\<close>

theorem cache_Get_expiry:
  assumes "cache_Get c now key = (c', r, found)"
  shows "(found \<longleftrightarrow> (\<exists>item. items c key = Some item \<and> now \<le> expires item))
       \<and> (found \<longrightarrow>
            (\<exists>item. items c key = Some item \<and> r = item_value item \<and> now \<le> expires item)
            \<and> c' = c)
       \<and> (\<not> found \<longrightarrow>
            r = Result_zero \<and> ttl c' = ttl c \<and> items c' = (items c)(key := None)
            \<and> cache_Get c' later key = (c', Result_zero, False))"
proof (cases "items c key")
  case None
  then have "c' = c \<and> r = Result_zero \<and> \<not> found"
    using assms by (auto simp: cache_Get_def)
  then show ?thesis using None by (auto simp: cache_Get_def)
next
  case (Some item)
  show ?thesis
  proof (cases "After now (expires item)")
    case True
    then have "c' = c\<lparr>items := (items c)(key := None)\<rparr> \<and> r = Result_zero \<and> \<not> found"
      using assms Some by (auto simp: cache_Get_def)
    then show ?thesis using Some True by (auto simp: cache_Get_def After_def)
  next
    case False
    then have "c' = c \<and> r = item_value item \<and> found"
      using assms Some by (auto simp: cache_Get_def)
    then show ?thesis using Some False by (auto simp: After_def)
  qed
qed

theorem cache_Get_expiry_witness:
  "cache_Get (cache_Set (newCache thirty_minutes) 7 (gostr ''main st'') main_st_result)
      1800000000008 (gostr ''main st'')
     = (newCache thirty_minutes, Result_zero, False)
   \<and> cache_Get (newCache thirty_minutes) 1800000000009 (gostr ''main st'')
     = (newCache thirty_minutes, Result_zero, False)"
proof -
  have h: "cache_Get (cache_Set (newCache thirty_minutes) 7 (gostr ''main st'') main_st_result)
      1800000000008 (gostr ''main st'')
     = (newCache thirty_minutes, Result_zero, False)"
    by (simp add: cache_Get_def cache_Set_def After_def Add_def newCache_def thirty_minutes_def)
  from cache_Get_expiry [OF h, of 1800000000009]
  show ?thesis using h by simp
qed

section \<open>The lookup, path by path\<close>

text \<open>After a miss on a request that could be built, the call is decided by the upstream.\<close>

lemma Geocode_miss:
  assumes "normalizeAddress (unicode_ToLower lib) raw = address" "address \<noteq> []"
    and "cache_Get (cache s) now_get address = (c1, r0, False)"
    and "http_NewRequestWithContext lib ctx (gostr ''GET'') (apiURL lib (apiKey s) address) = None"
  shows "Geocode lib s now_get now_set ctx raw =
    (let s1 = s\<lparr>cache := c1\<rparr>;
         req = upstream_request lib (apiKey s) ctx address;
         tr = [CacheGet address, ClientDo req]
     in case client_Do lib req of
          Inl e \<Rightarrow> fail s1 tr e
        | Inr resp \<Rightarrow>
            if StatusCode resp \<noteq> 200
            then fail s1 tr (Errorf (gostr ''google maps api returned status '' @ Itoa (StatusCode resp)))
            else
             (case Body resp of
                Inl e \<Rightarrow> fail s1 tr e
              | Inr payload \<Rightarrow>
                  if Status payload \<noteq> gostr ''OK''
                  then
                    if ErrorMessage payload \<noteq> []
                    then fail s1 tr (Errorf (gostr ''google maps api error: '' @ ErrorMessage payload))
                    else fail s1 tr (Errorf (gostr ''google maps api status: '' @ Status payload))
                  else
                   (case Results payload of
                      [] \<Rightarrow> fail s1 tr ErrNoResults
                    | top_item # rest \<Rightarrow>
                       (let result =
                              \<lparr>Address = FormattedAddress top_item,
                               Latitude = Lat (Location (Geometry top_item)),
                               Longitude = Lng (Location (Geometry top_item)),
                               Source = gostr ''google''\<rparr>
                        in
                        \<lparr>ret = result, err = None,
                         svc = s1\<lparr>cache := cache_Set c1 now_set address result\<rparr>,
                         trace = tr @ [CacheSet address result]\<rparr>))))"
  using assms by (simp add: Geocode_def upstream_request_def Let_def)

text \<open>Facts about the stub provider and the fresh service, for the concrete runs below.\<close>

lemmas stub_simps = stub_lib_def stub_QueryEscape_def answer_ok_def main_service_def
  NewService_def newCache_def thirty_minutes_def infinite_loop_payload_def empty_payload_def
  denied_payload_def

lemmas norm_simps = normalizeAddress_def TrimSpace_def ToLower_def gostr_def ascii_ToLower_def
  unicode_IsSpace_def

lemma stub_normalize:
  "normalizeAddress (unicode_ToLower (stub_lib a)) (gostr ''  MAIN st '') = gostr ''main st''"
  by (simp add: stub_lib_def norm_simps)

lemma stub_miss:
  "cache_Get (cache main_service) t k = (cache main_service, Result_zero, False)"
  by (simp add: cache_Get_def main_service_def NewService_def newCache_def)

lemma stub_request:
  "http_NewRequestWithContext (stub_lib a) ctx m u = None"
  by (simp add: stub_lib_def)

lemma stub_Do: "client_Do (stub_lib a) r = a"
  by (simp add: stub_lib_def)

subsection \<open>Empty address\<close>

lemma empty_address_fails:
  "normalizeAddress (unicode_ToLower lib) raw = [] \<Longrightarrow>
   Geocode lib s now_get now_set ctx raw = fail s [] ErrAddressRequired"
  by (simp add: Geocode_def)

lemma normalizeAddress_Nil: "normalizeAddress lower [] = []"
  by (simp add: normalizeAddress_def TrimSpace_def ToLower_def)

lemma normalizeAddress_spaces:
  assumes l: "\<forall>r. unicode_IsSpace r \<longrightarrow> unicode_IsSpace (lower r)"
    and w: "\<forall>c\<in>set raw. isSpace c"
  shows "normalizeAddress lower raw = []"
proof -
  have "isSpace (lowerChar lower c)" if "c \<in> set raw" for c
  proof (cases c)
    case (Rune x)
    then show ?thesis using that w l by auto
  next
    case (BadByte b)
    then show ?thesis using that w by auto
  qed
  then have "\<forall>c\<in>set (ToLower lower raw). isSpace c"
    by (auto simp: ToLower_def)
  then show ?thesis
    by (simp add: normalizeAddress_def TrimSpace_def dropWhile_all)
qed

text \<open>
  Claim C3. A raw address whose normalized form is empty makes \<^verbatim>\<open>Geocode\<close> return the
  zero result with \<^verbatim>\<open>ErrAddressRequired\<close>, the service unchanged and an empty trace: no
  cache lookup, no upstream request. The empty string is such an address, and so is every
  string of white space only (lower-casing maps white space to white space).
\<close>

theorem Geocode_empty_address:
  "(normalizeAddress (unicode_ToLower lib) raw = [] \<longrightarrow>
      Geocode lib s now_get now_set ctx raw
        = \<lparr>ret = Result_zero, err = Some ErrAddressRequired, svc = s, trace = []\<rparr>)
   \<and> normalizeAddress (unicode_ToLower lib) [] = []
   \<and> ((\<forall>r. unicode_IsSpace r \<longrightarrow> unicode_IsSpace (unicode_ToLower lib r))
        \<and> (\<forall>c\<in>set raw. isSpace c)
      \<longrightarrow> normalizeAddress (unicode_ToLower lib) raw = [])"
  using empty_address_fails [of lib raw s now_get now_set ctx]
    normalizeAddress_Nil [of "unicode_ToLower lib"]
    normalizeAddress_spaces [of "unicode_ToLower lib" raw]
  unfolding fail_def by blast

theorem Geocode_empty_address_witness:
  "list_all isSpace (gostr ''   '')
   \<and> normalizeAddress ascii_ToLower (gostr ''   '') = []
   \<and> Geocode (stub_lib (Inl refused_error)) main_service 0 0 () (gostr ''   '')
       = \<lparr>ret = Result_zero, err = Some ErrAddressRequired, svc = main_service, trace = []\<rparr>"
proof -
  let ?lib = "stub_lib (Inl refused_error)"
  have low: "unicode_ToLower ?lib = ascii_ToLower" by (simp add: stub_lib_def)
  have l: "\<forall>r. unicode_IsSpace r \<longrightarrow> unicode_IsSpace (unicode_ToLower ?lib r)"
    by (simp add: low ascii_ToLower_def unicode_IsSpace_def)
  have w: "\<forall>c\<in>set (gostr ''   ''). isSpace c"
    by (simp add: gostr_def unicode_IsSpace_def)
  from Geocode_empty_address [of ?lib "gostr ''   ''" main_service 0 0 "()"] l w
  show ?thesis by (simp add: low list_all_iff)
qed

subsection \<open>Cache hit\<close>

text \<open>No entry is ever stored under the empty key.\<close>

lemma nonempty_keys_NewService: "[] \<notin> dom (items (cache (NewService key d)))"
  by (simp add: NewService_def newCache_def)

lemma nonempty_keys_Geocode:
  "[] \<notin> dom (items (cache s)) \<Longrightarrow>
   [] \<notin> dom (items (cache (svc (Geocode lib s now_get now_set ctx raw))))"
  by (auto simp: Geocode_def fail_def Let_def cache_Get_def cache_Set_def
      split: prod.splits bool.splits option.splits sum.splits list.splits if_splits)

text \<open>
  Claim C2. When the cache holds an entry for the normalized address that has not expired
  at the instant of the lookup, \<^verbatim>\<open>Geocode\<close> returns the stored result with its source
  set to \<^verbatim>\<open>"cache"\<close> and no error; the only event of the call is the cache lookup, so
  no upstream request is made, and the service is left as it was.
\<close>

theorem Geocode_cache_hit:
  assumes "[] \<notin> dom (items (cache s))"
    and "items (cache s) (normalizeAddress (unicode_ToLower lib) raw) = Some item"
    and "\<not> After now_get (expires item)"
  shows "Geocode lib s now_get now_set ctx raw =
           \<lparr>ret = (item_value item)\<lparr>Source := gostr ''cache''\<rparr>, err = None, svc = s,
            trace = [CacheGet (normalizeAddress (unicode_ToLower lib) raw)]\<rparr>
       \<and> upstream_calls (trace (Geocode lib s now_get now_set ctx raw)) = []"
proof -
  have ne: "normalizeAddress (unicode_ToLower lib) raw \<noteq> []"
    using assms(1,2) by auto
  have g: "cache_Get (cache s) now_get (normalizeAddress (unicode_ToLower lib) raw)
             = (cache s, item_value item, True)"
    using assms(2,3) by (simp add: cache_Get_def)
  have "Geocode lib s now_get now_set ctx raw =
           \<lparr>ret = (item_value item)\<lparr>Source := gostr ''cache''\<rparr>, err = None, svc = s,
            trace = [CacheGet (normalizeAddress (unicode_ToLower lib) raw)]\<rparr>"
    using ne g by (simp add: Geocode_def Let_def)
  then show ?thesis by simp
qed

theorem Geocode_cache_hit_witness:
  "Geocode (stub_lib (Inl refused_error)) cached_service 5 5 () (gostr ''  MAIN st '')
     = \<lparr>ret = \<lparr>Address = gostr ''Main St, Springfield'', Latitude = 0x4043E00000000000,
               Longitude = 0xC056800000000000, Source = gostr ''cache''\<rparr>,
        err = None, svc = cached_service, trace = [CacheGet (gostr ''main st'')]\<rparr>
   \<and> upstream_calls (trace (Geocode (stub_lib (Inl refused_error)) cached_service 5 5 ()
        (gostr ''  MAIN st ''))) = []"
proof -
  let ?lib = "stub_lib (Inl refused_error)"
  have h1: "[] \<notin> dom (items (cache cached_service))"
    by (simp add: cached_service_def cache_Set_def main_service_def NewService_def newCache_def
          gostr_def)
  have h2: "items (cache cached_service) (normalizeAddress (unicode_ToLower ?lib) (gostr ''  MAIN st ''))
              = Some \<lparr>item_value = main_st_result, expires = 1800000000000\<rparr>"
    by (simp add: stub_normalize cached_service_def cache_Set_def Add_def main_service_def
          NewService_def newCache_def thirty_minutes_def)
  have h3: "\<not> After 5 (expires \<lparr>item_value = main_st_result, expires = 1800000000000\<rparr>)"
    by (simp add: After_def)
  from Geocode_cache_hit [where now_set = 5 and ctx = "()", OF h1 h2 h3]
  show ?thesis by (simp add: stub_normalize main_st_result_def)
qed

subsection \<open>Success\<close>

text \<open>
  Claim C1, with the source that the code writes. When the upstream answers with HTTP
  status 200, provider status \<^verbatim>\<open>"OK"\<close> and at least one result, \<^verbatim>\<open>Geocode\<close> builds
  its result from the first element of the list only (formatted address, latitude,
  longitude), with source \<^verbatim>\<open>"google"\<close>; it returns that result without an error and
  stores it under the normalized address, with expiry the instant of the store plus the TTL,
  after exactly one upstream request.
\<close>

theorem Geocode_first_result:
  assumes "normalizeAddress (unicode_ToLower lib) raw = address" "address \<noteq> []"
    and "cache_Get (cache s) now_get address = (c1, r0, False)"
    and "http_NewRequestWithContext lib ctx (gostr ''GET'') (apiURL lib (apiKey s) address) = None"
    and "client_Do lib (upstream_request lib (apiKey s) ctx address) = Inr resp"
    and "StatusCode resp = 200" "Body resp = Inr payload"
    and "Status payload = gostr ''OK''" "Results payload = first # rest"
    and "out = Geocode lib s now_get now_set ctx raw"
  shows "ret out = \<lparr>Address = FormattedAddress first,
                     Latitude = Lat (Location (Geometry first)),
                     Longitude = Lng (Location (Geometry first)),
                     Source = gostr ''google''\<rparr>
       \<and> err out = None
       \<and> items (cache (svc out)) =
           (items c1)(address \<mapsto> \<lparr>item_value = ret out,
                                   expires = now_set + sint (ttl (cache s))\<rparr>)
       \<and> cache_writes (trace out) = [(address, ret out)]
       \<and> upstream_calls (trace out) = [upstream_request lib (apiKey s) ctx address]"
  using assms cache_Get_ttl [OF assms(3)]
  by (simp add: Geocode_miss [OF assms(1-4)] Let_def cache_Set_def Add_def)

theorem Geocode_first_result_witness:
  "ret (Geocode (stub_lib (answer_ok infinite_loop_payload)) main_service 0 5 ()
          (gostr ''1 infinite loop''))
     = \<lparr>Address = gostr ''1 Infinite Loop'', Latitude = 0x4042AA3D70A3D70A,
        Longitude = 0xC05E81EB851EB852, Source = gostr ''google''\<rparr>
   \<and> err (Geocode (stub_lib (answer_ok infinite_loop_payload)) main_service 0 5 ()
          (gostr ''1 infinite loop'')) = None
   \<and> items (cache (svc (Geocode (stub_lib (answer_ok infinite_loop_payload)) main_service 0 5 ()
          (gostr ''1 infinite loop'')))) (gostr ''1 infinite loop'')
     = Some \<lparr>item_value =
               \<lparr>Address = gostr ''1 Infinite Loop'', Latitude = 0x4042AA3D70A3D70A,
                Longitude = 0xC05E81EB851EB852, Source = gostr ''google''\<rparr>,
             expires = 1800000000005\<rparr>"
proof -
  let ?lib = "stub_lib (answer_ok infinite_loop_payload)"
  let ?a = "gostr ''1 infinite loop''"
  let ?first = "\<lparr>FormattedAddress = gostr ''1 Infinite Loop'',
          Geometry = \<lparr>Location = \<lparr>Lat = 0x4042AA3D70A3D70A, Lng = 0xC05E81EB851EB852\<rparr>\<rparr>\<rparr>"
  have h1: "normalizeAddress (unicode_ToLower ?lib) ?a = ?a"
    by (simp add: stub_lib_def norm_simps)
  have h2: "?a \<noteq> []" by (simp add: gostr_def)
  have h5: "client_Do ?lib (upstream_request ?lib (apiKey main_service) () ?a)
              = Inr \<lparr>StatusCode = 200, Body = Inr infinite_loop_payload\<rparr>"
    by (simp add: stub_Do answer_ok_def)
  have h6: "StatusCode \<lparr>StatusCode = 200, Body = Inr infinite_loop_payload\<rparr> = 200" by simp
  have h7: "Body \<lparr>StatusCode = 200, Body = Inr infinite_loop_payload\<rparr> = Inr infinite_loop_payload"
    by simp
  have h8: "Status infinite_loop_payload = gostr ''OK''"
    by (simp add: infinite_loop_payload_def)
  have h9: "Results infinite_loop_payload = ?first # []"
    by (simp add: infinite_loop_payload_def)
  have t: "sint (ttl (cache main_service)) = 1800000000000"
    by (simp add: main_service_def NewService_def newCache_def thirty_minutes_def)
  from Geocode_first_result [where now_set = 5, OF h1 h2 stub_miss [of 0] stub_request h5 h6 h7 h8 h9 refl]
  show ?thesis by (simp add: t)
qed

text \<open>
  The source of a fresh result is not \<^verbatim>\<open>"upstream"\<close>: on the answer of the
  specification's end-to-end example the call succeeds and its result has source
  \<^verbatim>\<open>"google"\<close>.
\<close>

theorem Geocode_source_upstream_counterexample:
  "client_Do (stub_lib (answer_ok infinite_loop_payload))
      (upstream_request (stub_lib (answer_ok infinite_loop_payload)) (apiKey main_service) ()
         (gostr ''1 infinite loop''))
     = Inr \<lparr>StatusCode = 200, Body = Inr infinite_loop_payload\<rparr>
   \<and> Status infinite_loop_payload = gostr ''OK''
   \<and> length (Results infinite_loop_payload) = 1
   \<and> err (Geocode (stub_lib (answer_ok infinite_loop_payload)) main_service 0 5 ()
          (gostr ''1 infinite loop'')) = None
   \<and> Source (ret (Geocode (stub_lib (answer_ok infinite_loop_payload)) main_service 0 5 ()
          (gostr ''1 infinite loop''))) = gostr ''google''
   \<and> Source (ret (Geocode (stub_lib (answer_ok infinite_loop_payload)) main_service 0 5 ()
          (gostr ''1 infinite loop''))) \<noteq> gostr ''upstream''"
  by (simp add: Geocode_def stub_simps norm_simps cache_Get_def Let_def)

subsection \<open>No results\<close>

lemma Geocode_no_results_step:
  assumes "normalizeAddress (unicode_ToLower lib) raw = address" "address \<noteq> []"
    and "cache_Get (cache s) now_get address = (c1, r0, False)"
    and "empty_answer lib (apiKey s) ctx address"
  shows "Geocode lib s now_get now_set ctx raw
           = fail (s\<lparr>cache := c1\<rparr>)
               [CacheGet address, ClientDo (upstream_request lib (apiKey s) ctx address)]
               ErrNoResults"
proof -
  have n: "http_NewRequestWithContext lib ctx (gostr ''GET'') (apiURL lib (apiKey s) address) = None"
    using assms(4) by (simp add: empty_answer_def)
  obtain resp payload where
    "client_Do lib (upstream_request lib (apiKey s) ctx address) = Inr resp"
    "StatusCode resp = 200" "Body resp = Inr payload"
    "Status payload = gostr ''OK''" "Results payload = []"
    using assms(4) by (auto simp: empty_answer_def split: sum.splits)
  then show ?thesis
    by (simp add: Geocode_miss [OF assms(1-3) n] Let_def)
qed

lemma Geocode_all_no_results:
  assumes "address \<noteq> []" "items (cache s) address = None"
    and "\<forall>(g, t, cx, rw)\<in>set calls.
           normalizeAddress (unicode_ToLower lib) rw = address
           \<and> empty_answer lib (apiKey s) cx address"
  shows "\<forall>out\<in>set (Geocode_all lib s calls).
           ret out = Result_zero \<and> err out = Some ErrNoResults
           \<and> length (upstream_calls (trace out)) = 1 \<and> cache_writes (trace out) = []"
  using assms(3)
proof (induction calls)
  case Nil
  then show ?case by simp
next
  case (Cons call calls)
  obtain g t cx rw where call: "call = (g, t, cx, rw)"
    by (cases call) auto
  have n: "normalizeAddress (unicode_ToLower lib) rw = address"
    and e: "empty_answer lib (apiKey s) cx address"
    using Cons.prems call by auto
  have step: "Geocode lib s g t cx rw
           = fail (s\<lparr>cache := cache s\<rparr>)
               [CacheGet address, ClientDo (upstream_request lib (apiKey s) cx address)]
               ErrNoResults"
    by (rule Geocode_no_results_step [OF n assms(1) cache_Get_absent [OF assms(2)] e])
  have rest: "\<forall>out\<in>set (Geocode_all lib s calls).
           ret out = Result_zero \<and> err out = Some ErrNoResults
           \<and> length (upstream_calls (trace out)) = 1 \<and> cache_writes (trace out) = []"
    using Cons.IH Cons.prems by simp
  show ?case
    using rest by (simp add: call step fail_def Let_def)
qed

lemma length_Geocode_all: "length (Geocode_all lib s calls) = length calls"
  by (induction calls arbitrary: s) (auto simp: Let_def)

text \<open>
  Claim C7. When the upstream answers \<^verbatim>\<open>"OK"\<close> with an empty list of results,
  \<^verbatim>\<open>Geocode\<close> returns the zero result with \<^verbatim>\<open>ErrNoResults\<close> after one upstream
  request and without a write to the cache. Any number of later lookups of the same
  address, at any instants, to which the upstream again answers with an empty list, each
  fail in the same way and each make their own upstream request.
\<close>

theorem Geocode_no_results_not_memoized:
  assumes "normalizeAddress (unicode_ToLower lib) raw = address" "address \<noteq> []"
    and "cache_Get (cache s) now_get address = (c1, r0, False)"
    and "empty_answer lib (apiKey s) ctx address"
    and "\<forall>(g, t, cx, rw)\<in>set calls.
           normalizeAddress (unicode_ToLower lib) rw = address
           \<and> empty_answer lib (apiKey s) cx address"
    and "out = Geocode lib s now_get now_set ctx raw"
  shows "ret out = Result_zero \<and> err out = Some ErrNoResults
       \<and> cache (svc out) = c1 \<and> cache_writes (trace out) = []
       \<and> upstream_calls (trace out) = [upstream_request lib (apiKey s) ctx address]
       \<and> length (Geocode_all lib (svc out) calls) = length calls
       \<and> (\<forall>later\<in>set (Geocode_all lib (svc out) calls).
             ret later = Result_zero \<and> err later = Some ErrNoResults
             \<and> length (upstream_calls (trace later)) = 1 \<and> cache_writes (trace later) = [])"
proof -
  have out: "out = fail (s\<lparr>cache := c1\<rparr>)
               [CacheGet address, ClientDo (upstream_request lib (apiKey s) ctx address)]
               ErrNoResults"
    using Geocode_no_results_step [OF assms(1-4)] assms(6) by simp
  have absent: "items (cache (svc out)) address = None"
    using cache_Get_miss_absent [OF assms(3)] by (simp add: out fail_def)
  have key: "apiKey (svc out) = apiKey s"
    by (simp add: out fail_def)
  have later: "\<forall>later\<in>set (Geocode_all lib (svc out) calls).
             ret later = Result_zero \<and> err later = Some ErrNoResults
             \<and> length (upstream_calls (trace later)) = 1 \<and> cache_writes (trace later) = []"
    using Geocode_all_no_results [OF assms(2) absent, of calls lib] assms(5)
    by (simp add: key)
  show ?thesis
    using later by (simp add: out fail_def length_Geocode_all)
qed

theorem Geocode_no_results_not_memoized_witness:
  "empty_answer (stub_lib (answer_ok empty_payload)) (apiKey main_service) () (gostr ''nowhere'')
   \<and> err (Geocode (stub_lib (answer_ok empty_payload)) main_service 1 1 () (gostr ''nowhere''))
       = Some ErrNoResults
   \<and> cache (svc (Geocode (stub_lib (answer_ok empty_payload)) main_service 1 1 ()
        (gostr ''nowhere''))) = cache main_service
   \<and> err (Geocode_all (stub_lib (answer_ok empty_payload))
            (svc (Geocode (stub_lib (answer_ok empty_payload)) main_service 1 1 ()
               (gostr ''nowhere'')))
            [(2, 2, (), gostr ''Nowhere''), (3, 3, (), gostr '' nowhere '')] ! 1)
       = Some ErrNoResults
   \<and> length (upstream_calls (trace (Geocode_all (stub_lib (answer_ok empty_payload))
            (svc (Geocode (stub_lib (answer_ok empty_payload)) main_service 1 1 ()
               (gostr ''nowhere'')))
            [(2, 2, (), gostr ''Nowhere''), (3, 3, (), gostr '' nowhere '')] ! 1))) = 1"
proof -
  let ?lib = "stub_lib (answer_ok empty_payload)"
  let ?a = "gostr ''nowhere''"
  let ?calls = "[(2::int, 2::int, (), gostr ''Nowhere''), (3, 3, (), gostr '' nowhere '')]"
  have h1: "normalizeAddress (unicode_ToLower ?lib) ?a = ?a"
    by (simp add: stub_lib_def norm_simps)
  have h2: "?a \<noteq> []" by (simp add: gostr_def)
  have h4: "empty_answer ?lib (apiKey main_service) () ?a"
    by (simp add: empty_answer_def stub_request stub_Do answer_ok_def empty_payload_def)
  have h5: "\<forall>(g, t, cx, rw)\<in>set ?calls.
           normalizeAddress (unicode_ToLower ?lib) rw = ?a
           \<and> empty_answer ?lib (apiKey main_service) cx ?a"
    using h4 by (simp add: stub_lib_def norm_simps)
  note w = Geocode_no_results_not_memoized
    [where now_set = 1 and calls = ?calls, OF h1 h2 stub_miss [of 1] h4 h5 refl]
  have m: "Geocode_all ?lib (svc (Geocode ?lib main_service 1 1 () ?a)) ?calls ! 1
             \<in> set (Geocode_all ?lib (svc (Geocode ?lib main_service 1 1 () ?a)) ?calls)"
    using w by (intro nth_mem) simp
  show ?thesis using w m h4 by blast
qed

subsection \<open>Upstream failures\<close>

text \<open>
  Claim C8. After a cache miss, each upstream failure makes \<^verbatim>\<open>Geocode\<close> fail with an
  error that tells the cause: a transport error and a decoding error are returned as they
  are; a status other than 200 gives \<^verbatim>\<open>google maps api returned status N\<close>; a provider
  status other than \<^verbatim>\<open>"OK"\<close> gives the provider's error message when there is one and
  the raw status otherwise. On every error return the result is zero, the cache is the one
  the lookup left and nothing is written to it. The handler answers these errors with its
  default status 502, the class of upstream errors: always for the errors that
  \<^verbatim>\<open>Geocode\<close> builds itself, and for an error of the transport or the decoder unless it
  is a cancellation or a passed deadline.
\<close>

theorem Geocode_upstream_failure:
  assumes "normalizeAddress (unicode_ToLower lib) raw = address" "address \<noteq> []"
    and "cache_Get (cache s) now_get address = (c1, r0, False)"
    and "http_NewRequestWithContext lib ctx (gostr ''GET'') (apiURL lib (apiKey s) address) = None"
    and "req = upstream_request lib (apiKey s) ctx address"
    and "out = Geocode lib s now_get now_set ctx raw"
  shows "(client_Do lib req = Inl e \<longrightarrow> err out = Some e)
       \<and> (client_Do lib req = Inr resp \<and> StatusCode resp \<noteq> 200 \<longrightarrow>
            err out = Some (Errorf (gostr ''google maps api returned status ''
                                      @ Itoa (StatusCode resp))))
       \<and> (client_Do lib req = Inr resp \<and> StatusCode resp = 200 \<and> Body resp = Inl e \<longrightarrow>
            err out = Some e)
       \<and> (client_Do lib req = Inr resp \<and> StatusCode resp = 200 \<and> Body resp = Inr payload
            \<and> Status payload \<noteq> gostr ''OK'' \<longrightarrow>
            err out = Some (Errorf (if ErrorMessage payload \<noteq> []
                                    then gostr ''google maps api error: '' @ ErrorMessage payload
                                    else gostr ''google maps api status: '' @ Status payload)))
       \<and> (err out \<noteq> None \<longrightarrow>
            ret out = Result_zero \<and> cache (svc out) = c1 \<and> cache_writes (trace out) = []
            \<and> upstream_calls (trace out) = [req])
       \<and> handler_error_status (Errorf m) = 502
       \<and> (\<not> errors_Is e ErrNoResults \<and> \<not> errors_Is e ContextCanceled
            \<and> \<not> errors_Is e ContextDeadlineExceeded \<longrightarrow> handler_error_status e = 502)"
proof -
  note g = Geocode_miss [OF assms(1-4), of now_set, folded assms(5,6)]
  have 1: "client_Do lib req = Inl e \<longrightarrow> err out = Some e"
    by (simp add: g Let_def fail_def)
  have 2: "client_Do lib req = Inr resp \<and> StatusCode resp \<noteq> 200 \<longrightarrow>
            err out = Some (Errorf (gostr ''google maps api returned status ''
                                      @ Itoa (StatusCode resp)))"
    by (simp add: g Let_def fail_def)
  have 3: "client_Do lib req = Inr resp \<and> StatusCode resp = 200 \<and> Body resp = Inl e \<longrightarrow>
            err out = Some e"
    by (simp add: g Let_def fail_def)
  have 4: "client_Do lib req = Inr resp \<and> StatusCode resp = 200 \<and> Body resp = Inr payload
            \<and> Status payload \<noteq> gostr ''OK'' \<longrightarrow>
            err out = Some (Errorf (if ErrorMessage payload \<noteq> []
                                    then gostr ''google maps api error: '' @ ErrorMessage payload
                                    else gostr ''google maps api status: '' @ Status payload))"
    by (simp add: g Let_def fail_def)
  have 5: "err out \<noteq> None \<longrightarrow>
            ret out = Result_zero \<and> cache (svc out) = c1 \<and> cache_writes (trace out) = []
            \<and> upstream_calls (trace out) = [req]"
    by (auto simp: g Let_def fail_def split: sum.splits list.splits)
  have 6: "handler_error_status (Errorf m) = 502"
    by (simp add: handler_error_status_def)
  have 7: "\<not> errors_Is e ErrNoResults \<and> \<not> errors_Is e ContextCanceled
            \<and> \<not> errors_Is e ContextDeadlineExceeded \<longrightarrow> handler_error_status e = 502"
    by (simp add: handler_error_status_def)
  show ?thesis using 1 2 3 4 5 6 7 by blast
qed

theorem Geocode_upstream_failure_witness:
  "err (Geocode (stub_lib (Inl refused_error)) main_service 1 1 () (gostr ''  MAIN st ''))
     = Some refused_error
   \<and> handler_error_status refused_error = 502
   \<and> err (Geocode (stub_lib (Inr \<lparr>StatusCode = 503, Body = Inl syntax_error\<rparr>)) main_service 1 1 ()
        (gostr ''  MAIN st ''))
     = Some (Errorf (gostr ''google maps api returned status 503''))
   \<and> err (Geocode (stub_lib (Inr \<lparr>StatusCode = 200, Body = Inl syntax_error\<rparr>)) main_service 1 1 ()
        (gostr ''  MAIN st ''))
     = Some syntax_error
   \<and> err (Geocode (stub_lib (answer_ok denied_payload)) main_service 1 1 () (gostr ''  MAIN st ''))
     = Some (Errorf (gostr ''google maps api error: The provided API key is invalid.''))
   \<and> err (Geocode (stub_lib (answer_ok over_limit_payload)) main_service 1 1 ()
        (gostr ''  MAIN st ''))
     = Some (Errorf (gostr ''google maps api status: OVER_QUERY_LIMIT''))
   \<and> cache (svc (Geocode (stub_lib (answer_ok denied_payload)) main_service 1 1 ()
        (gostr ''  MAIN st ''))) = cache main_service
   \<and> cache_writes (trace (Geocode (stub_lib (answer_ok denied_payload)) main_service 1 1 ()
        (gostr ''  MAIN st ''))) = []"
proof -
  have h2: "gostr ''main st'' \<noteq> []" by (simp add: gostr_def)
  note w = Geocode_upstream_failure
    [where now_set = 1 and ctx = "()", OF stub_normalize h2 stub_miss [of 1] stub_request refl refl]
  have r: "\<not> errors_Is refused_error ErrNoResults \<and> \<not> errors_Is refused_error ContextCanceled
            \<and> \<not> errors_Is refused_error ContextDeadlineExceeded"
    by (simp add: refused_error_def)
  have 1: "err (Geocode (stub_lib (Inl refused_error)) main_service 1 1 () (gostr ''  MAIN st ''))
     = Some refused_error \<and> handler_error_status refused_error = 502"
    using w [of "Inl refused_error" refused_error] r by (simp add: stub_Do)
  have 2: "err (Geocode (stub_lib (Inr \<lparr>StatusCode = 503, Body = Inl syntax_error\<rparr>)) main_service 1 1 ()
        (gostr ''  MAIN st ''))
     = Some (Errorf (gostr ''google maps api returned status 503''))"
    using w [of "Inr \<lparr>StatusCode = 503, Body = Inl syntax_error\<rparr>" _
               "\<lparr>StatusCode = 503, Body = Inl syntax_error\<rparr>"]
    by (simp add: stub_Do Itoa_def gostr_def)
  have 3: "err (Geocode (stub_lib (Inr \<lparr>StatusCode = 200, Body = Inl syntax_error\<rparr>)) main_service 1 1 ()
        (gostr ''  MAIN st ''))
     = Some syntax_error"
    using w [of "Inr \<lparr>StatusCode = 200, Body = Inl syntax_error\<rparr>" syntax_error
               "\<lparr>StatusCode = 200, Body = Inl syntax_error\<rparr>"]
    by (simp add: stub_Do)
  have 4: "err (Geocode (stub_lib (answer_ok denied_payload)) main_service 1 1 () (gostr ''  MAIN st ''))
     = Some (Errorf (gostr ''google maps api error: The provided API key is invalid.''))
   \<and> cache (svc (Geocode (stub_lib (answer_ok denied_payload)) main_service 1 1 ()
        (gostr ''  MAIN st ''))) = cache main_service
   \<and> cache_writes (trace (Geocode (stub_lib (answer_ok denied_payload)) main_service 1 1 ()
        (gostr ''  MAIN st ''))) = []"
    using w [of "answer_ok denied_payload" _ "\<lparr>StatusCode = 200, Body = Inr denied_payload\<rparr>"
               denied_payload]
    by (simp add: stub_Do answer_ok_def denied_payload_def gostr_def)
  have 5: "err (Geocode (stub_lib (answer_ok over_limit_payload)) main_service 1 1 ()
        (gostr ''  MAIN st ''))
     = Some (Errorf (gostr ''google maps api status: OVER_QUERY_LIMIT''))"
    using w [of "answer_ok over_limit_payload" _
               "\<lparr>StatusCode = 200, Body = Inr over_limit_payload\<rparr>" over_limit_payload]
    by (simp add: stub_Do answer_ok_def over_limit_payload_def gostr_def)
  show ?thesis using 1 2 3 4 5 by blast
qed

subsection \<open>Cancellation and deadline\<close>











subsection \<open>Error returns\<close>

text \<open>
  Claim C10. Whenever \<^verbatim>\<open>Geocode\<close> returns an error, whichever it is, the result
  returned with it is the zero value \<^verbatim>\<open>Result{}\<close>: empty address, zero latitude and
  longitude, empty source.
\<close>

theorem Geocode_error_zero_result:
  "err (Geocode lib s now_get now_set ctx raw) = Some e \<Longrightarrow>
   ret (Geocode lib s now_get now_set ctx raw) = Result_zero"
  by (auto simp: Geocode_def fail_def Let_def
      split: prod.splits bool.splits option.splits sum.splits list.splits if_splits)

theorem Geocode_error_zero_result_witness:
  "err (Geocode (stub_lib (answer_ok empty_payload)) main_service 1 1 () (gostr ''nowhere''))
     = Some ErrNoResults
   \<and> ret (Geocode (stub_lib (answer_ok empty_payload)) main_service 1 1 () (gostr ''nowhere''))
     = \<lparr>Address = [], Latitude = 0, Longitude = 0, Source = []\<rparr>"
proof -
  have h: "err (Geocode (stub_lib (answer_ok empty_payload)) main_service 1 1 () (gostr ''nowhere''))
     = Some ErrNoResults"
    by (simp add: Geocode_def stub_simps norm_simps cache_Get_def Let_def fail_def)
  from Geocode_error_zero_result [OF h]
  show ?thesis using h by (simp add: Result_zero_def)
qed

end
